theory Spec2Isabelle
  imports Complex_Main
begin

section \<open>Python values and exceptions\<close>

text \<open>
  The two scripts of the repository, \<^verbatim>\<open>perception/05_tracker_webcam.py\<close> and
  \<^verbatim>\<open>simulation/sim1_rigid_body/costs.py\<close>, are glue around native libraries
  (OpenCV, the m3t tracker, pinocchio, numpy). The Python written in the repository is
  embedded here; what a library computes is a parameter of the embedding, and a library
  call is taken to return normally.

  Python exceptions are values of \<open>pyerr\<close>; a computation that may raise returns
  \<open>pyerr + 'r\<close>, with \<open>Inl\<close> for the exception.
\<close>

datatype pyerr =
    AttributeError string
  | NameError string
  | ValueError string
  | TypeError string
  | IndexError string
  | SystemExit int

definition and_then :: "'e + 'r \<Rightarrow> ('r \<Rightarrow> 'e + 'q) \<Rightarrow> 'e + 'q" where
  "and_then m f = (case m of Inl e \<Rightarrow> Inl e | Inr x \<Rightarrow> f x)"

text \<open>
  Floating-point numbers are an abstract type \<open>'a\<close>: its arithmetic is written with the
  operators of the syntactic classes (\<open>plus\<close>, \<open>minus\<close>, \<open>times\<close>, \<open>inverse\<close>), which
  assume no law, and the conversions and the numpy functions the scripts call are the
  fields of \<open>float_ops\<close>. Every theorem below holds for whatever these operations are,
  IEEE doubles included.
\<close>

record 'a float_ops =
  float_of_int :: "int \<Rightarrow> 'a"  \<comment> \<open>a Python int used where a float is expected\<close>
  float_lit :: "string \<Rightarrow> 'a"  \<comment> \<open>the value of a float literal of the source\<close>
  float_of_str :: "string \<Rightarrow> 'a option"  \<comment> \<open>\<^verbatim>\<open>float(s)\<close>; \<open>None\<close> is its ValueError\<close>
  np_tan :: "'a \<Rightarrow> 'a"
  np_deg2rad :: "'a \<Rightarrow> 'a"

definition ord :: "char \<Rightarrow> int" where
  "ord c = of_char c"

section \<open>The webcam driver: command line\<close>

text \<open>
  \<^verbatim>\<open>parse_script_input\<close> declares six arguments on an \<^verbatim>\<open>argparse.ArgumentParser\<close>.
  An argument is the record of what its \<^verbatim>\<open>add_argument\<close> call passes.
\<close>

datatype 'a argval = ArgNone | ArgStr string | ArgFloat 'a | ArgBool bool

datatype argtype = type_str | type_float

record 'a argument =
  option_strings :: "string list"
  dest :: string
  store_true :: bool  \<comment> \<open>\<^verbatim>\<open>action='store_true'\<close>; otherwise the default action, store\<close>
  arg_type :: argtype
  required :: bool
  default_value :: "'a argval"

definition script_arguments :: "'a float_ops \<Rightarrow> 'a argument list" where
  "script_arguments F =
    [ \<lparr>option_strings = [''-b'', ''--body_name''], dest = ''body_name'', store_true = False,
        arg_type = type_str, required = True, default_value = ArgNone\<rparr>,
      \<lparr>option_strings = [''-m'', ''--models_dir''], dest = ''models_dir'', store_true = False,
        arg_type = type_str, required = True, default_value = ArgNone\<rparr>,
      \<lparr>option_strings = [''--fov''], dest = ''fov'', store_true = False,
        arg_type = type_float, required = False,
        default_value = ArgFloat (float_lit F ''50.0'')\<rparr>,
      \<lparr>option_strings = [''--scale_geometry''], dest = ''scale_geometry'', store_true = False,
        arg_type = type_float, required = False,
        default_value = ArgFloat (float_lit F ''0.001'')\<rparr>,
      \<lparr>option_strings = [''--tmp_dir''], dest = ''tmp_dir'', store_true = False,
        arg_type = type_str, required = False, default_value = ArgStr ''tmp''\<rparr>,
      \<lparr>option_strings = [''--use_region''], dest = ''use_region'', store_true = True,
        arg_type = type_str, required = False, default_value = ArgBool False\<rparr> ]"

text \<open>
  \<^verbatim>\<open>parser.parse_args()\<close> is the standard library's (\<^verbatim>\<open>argparse.py\<close> of CPython 3.11),
  on a parser with the default settings: prefix character \<^verbatim>\<open>-\<close>, abbreviations allowed,
  the help action \<^verbatim>\<open>-h/--help\<close> added before the script's arguments, no positional
  argument. Its algorithm is embedded in full for command lines whose characters are
  below 256 (of these, only \<^verbatim>\<open>0\<close> to \<^verbatim>\<open>9\<close> are digits for the regular expression of
  negative numbers). It exits with status 2 on every error and with status 0 after
  printing the help.
\<close>

type_synonym 'a namespace = "string \<rightharpoonup> 'a argval"

datatype 'a parsed = Namespace "'a namespace" | Exits int

datatype 'a action = Help | Declared "'a argument"

text \<open>\<^verbatim>\<open>parser._option_string_actions\<close>, in the order of registration.\<close>

definition option_table :: "'a argument list \<Rightarrow> (string \<times> 'a action) list" where
  "option_table A =
    [(''-h'', Help), (''--help'', Help)] @
    concat (map (\<lambda>a. map (\<lambda>s. (s, Declared a)) (option_strings a)) A)"

text \<open>The number of words an action takes: one for store, none for the others.\<close>

definition takes_value :: "'a action \<Rightarrow> bool" where
  "takes_value act = (case act of Help \<Rightarrow> False | Declared a \<Rightarrow> \<not> store_true a)"

definition dashed :: "string \<Rightarrow> bool" where
  "dashed t = (case t of [] \<Rightarrow> False | c # _ \<Rightarrow> c = CHR ''-'')"

definition starts_with :: "string \<Rightarrow> string \<Rightarrow> bool" where
  \<comment> \<open>\<^verbatim>\<open>s.startswith(p)\<close>\<close>
  "starts_with p s = (take (length p) s = p)"

definition partition_eq :: "string \<Rightarrow> string \<times> string option" where
  \<comment> \<open>\<^verbatim>\<open>t.partition('=')\<close>: the part before the first \<^verbatim>\<open>=\<close>, and the part after it if there is one\<close>
  "partition_eq t =
    (takeWhile (\<lambda>c. c \<noteq> CHR ''='') t,
     if CHR ''='' \<in> set t then Some (tl (dropWhile (\<lambda>c. c \<noteq> CHR ''='') t)) else None)"

definition is_digit :: "char \<Rightarrow> bool" where
  "is_digit c = (48 \<le> (of_char c :: nat) \<and> (of_char c :: nat) \<le> 57)"

text \<open>
  \<^verbatim>\<open>_negative_number_matcher\<close>, the regular expression \<^verbatim>\<open>^-\d+$|^-\d*\.\d+$\<close>; its
  \<^verbatim>\<open>$\<close> also matches before one final newline.
\<close>

definition chop_newline :: "string \<Rightarrow> string" where
  "chop_newline t = (if t \<noteq> [] \<and> last t = CHR 0x0A then butlast t else t)"

definition negative_number :: "string \<Rightarrow> bool" where
  "negative_number t =
    (case chop_newline t of
       [] \<Rightarrow> False
     | c # r \<Rightarrow>
         c = CHR ''-'' \<and>
         ((r \<noteq> [] \<and> list_all is_digit r) \<or>
          (case dropWhile is_digit r of
             [] \<Rightarrow> False
           | d # ds \<Rightarrow> d = CHR ''.'' \<and> ds \<noteq> [] \<and> list_all is_digit ds)))"

text \<open>
  How \<^verbatim>\<open>_parse_optional\<close> reads one word: as an argument (\<open>Arg\<close>), or as an option, with
  the action it selects (none when the option is unknown), the option string, the
  separator (\<^verbatim>\<open>None\<close>, \<^verbatim>\<open>''\<close> or \<^verbatim>\<open>'='\<close>) and the explicit argument carried by the
  word; \<open>Ambiguous\<close> is the error of an abbreviation that several option strings
  complete. \<open>Dashes\<close> is the word \<^verbatim>\<open>--\<close>.
\<close>

datatype sep = No_sep | Empty_sep | Eq_sep

datatype 'a word_class =
    Arg
  | Dashes
  | Opt "'a action option" string sep "string option"
  | Ambiguous

definition option_tuples :: "(string \<times> 'a action) list \<Rightarrow> string
    \<Rightarrow> ('a action \<times> string \<times> sep \<times> string option) list" where
  "option_tuples T t =
    (if t ! 1 = CHR ''-'' then
       (case partition_eq t of (p, e) \<Rightarrow>
          map (\<lambda>(s, act). (act, s, if e = None then No_sep else Eq_sep, e))
            (filter (\<lambda>(s, act). starts_with p s) T))
     else
       concat (map (\<lambda>(s, act).
           if s = take 2 t then [(act, s, Empty_sep, Some (drop 2 t))]
           else if starts_with t s then [(act, s, No_sep, None)]
           else []) T))"

definition parse_optional :: "(string \<times> 'a action) list \<Rightarrow> string \<Rightarrow> 'a word_class" where
  "parse_optional T t =
    (if \<not> dashed t then Arg
     else case map_of T t of
       Some act \<Rightarrow> Opt (Some act) t No_sep None
     | None \<Rightarrow>
         if length t = 1 then Arg
         else (case partition_eq t of (s, e) \<Rightarrow>
           (case (e, map_of T s) of
              (Some x, Some act) \<Rightarrow> Opt (Some act) s Eq_sep (Some x)
            | _ \<Rightarrow>
               (case option_tuples T t of
                  [] \<Rightarrow>
                    if negative_number t then Arg
                    else if CHR '' '' \<in> set t then Arg
                    else Opt None t No_sep None
                | [(act, s', sp, e')] \<Rightarrow> Opt (Some act) s' sp e'
                | _ \<Rightarrow> Ambiguous))))"

text \<open>
  The first pass of \<^verbatim>\<open>_parse_known_args\<close>: every word with its reading; after \<^verbatim>\<open>--\<close>
  every word is an argument. \<open>None\<close> is the error of an ambiguous abbreviation.
\<close>

fun classify :: "(string \<times> 'a action) list \<Rightarrow> string list
    \<Rightarrow> (string \<times> 'a word_class) list option" where
  "classify T [] = Some []"
| "classify T (t # ts) =
    (if t = ''--'' then Some ((t, Dashes) # map (\<lambda>u. (u, Arg)) ts)
     else case parse_optional T t of
       Ambiguous \<Rightarrow> None
     | c \<Rightarrow> map_option (\<lambda>r. (t, c) # r) (classify T ts))"

text \<open>
  The loop of \<^verbatim>\<open>consume_optional\<close> for a known option: the actions to take, each with
  its argument strings. An explicit argument is the value of a store action; after a
  single-dash action that takes no value it is read as further single-dash options
  (\<^verbatim>\<open>-xyz\<close> for \<^verbatim>\<open>-x -y -z\<close>); otherwise it is the error of an ignored explicit
  argument. \<open>Wants_next\<close>: the last action is a store action without explicit argument,
  which takes the next word. The second component of \<open>Complete\<close> is what goes to the
  unrecognized words.
\<close>

datatype 'a taken =
    Ignored_explicit
  | Complete "('a action \<times> string list) list" "string list"
  | Wants_next "('a action \<times> string list) list" "'a action"

fun tuples_loop :: "(string \<times> 'a action) list \<Rightarrow> 'a action \<Rightarrow> string \<Rightarrow> sep \<Rightarrow> string option
    \<Rightarrow> ('a action \<times> string list) list \<Rightarrow> 'a taken" where
  "tuples_loop T act os sp None acc =
    (if takes_value act then Wants_next acc act else Complete (acc @ [(act, [])]) [])"
| "tuples_loop T act os sp (Some x) acc =
    (if takes_value act then Complete (acc @ [(act, [x])]) []
     else if os ! 1 = CHR ''-'' then Ignored_explicit
     else (case x of
         [] \<Rightarrow> Ignored_explicit
       | c # cs \<Rightarrow>
           if sp = Eq_sep \<or> c = CHR ''-'' then Ignored_explicit
           else (case map_of T [CHR ''-'', c] of
               None \<Rightarrow> Complete (acc @ [(act, [])]) [CHR ''-'' # x]
             | Some act2 \<Rightarrow>
                 (case cs of
                    [] \<Rightarrow> tuples_loop T act2 [CHR ''-'', c] No_sep None (acc @ [(act, [])])
                  | d # ds \<Rightarrow>
                      if d = CHR ''=''
                      then tuples_loop T act2 [CHR ''-'', c] Eq_sep (Some ds) (acc @ [(act, [])])
                      else tuples_loop T act2 [CHR ''-'', c] Empty_sep (Some cs)
                             (acc @ [(act, [])])))))"

definition convert :: "'a float_ops \<Rightarrow> argtype \<Rightarrow> string \<Rightarrow> 'a argval option" where
  "convert F ty v =
    (case ty of type_str \<Rightarrow> Some (ArgStr v)
     | type_float \<Rightarrow> map_option ArgFloat (float_of_str F v))"

definition defaults :: "'a argument list \<Rightarrow> 'a namespace" where
  "defaults A = map_of (map (\<lambda>a. (dest a, default_value a)) A)"

record 'a parse_state =
  ns :: "'a namespace"
  seen :: "string list"  \<comment> \<open>the dests of the actions taken\<close>
  extras :: "string list"  \<comment> \<open>the unrecognized words\<close>

text \<open>
  \<^verbatim>\<open>take_action\<close> on each action in turn: the help action prints and exits with status
  0, \<^verbatim>\<open>store_true\<close> stores \<^verbatim>\<open>True\<close>, store converts its one argument string by the
  \<^verbatim>\<open>type\<close> and stores it, or exits with status 2 when the conversion raises.
\<close>

fun take_actions :: "'a float_ops \<Rightarrow> ('a action \<times> string list) list \<Rightarrow> 'a parse_state
    \<Rightarrow> int + 'a parse_state" where
  "take_actions F [] st = Inr st"
| "take_actions F ((act, vs) # r) st =
    (case act of
       Help \<Rightarrow> Inl 0
     | Declared a \<Rightarrow>
         if store_true a
         then take_actions F r
                (st\<lparr>ns := (ns st)(dest a \<mapsto> ArgBool True), seen := dest a # seen st\<rparr>)
         else (case vs of
             [v] \<Rightarrow>
               (case convert F (arg_type a) v of
                  None \<Rightarrow> Inl 2
                | Some x \<Rightarrow>
                    take_actions F r (st\<lparr>ns := (ns st)(dest a \<mapsto> x), seen := dest a # seen st\<rparr>))
           | _ \<Rightarrow> Inl 2))"

text \<open>
  The second pass, from left to right. With no positional argument in the parser, a
  word that no option takes is unrecognized. A store action without explicit argument
  takes the next word if that word reads as an argument, and is the error of a missing
  argument otherwise.
\<close>

fun consume :: "'a float_ops \<Rightarrow> (string \<times> 'a action) list \<Rightarrow> (string \<times> 'a word_class) list
    \<Rightarrow> 'a parse_state \<Rightarrow> int + 'a parse_state" where
  "consume F T [] st = Inr st"
| "consume F T ((t, c) # rest) st =
    (case c of
       Arg \<Rightarrow> consume F T rest (st\<lparr>extras := extras st @ [t]\<rparr>)
     | Dashes \<Rightarrow> consume F T rest (st\<lparr>extras := extras st @ [t]\<rparr>)
     | Ambiguous \<Rightarrow> Inl 2
     | Opt None os sp e \<Rightarrow> consume F T rest (st\<lparr>extras := extras st @ [t]\<rparr>)
     | Opt (Some act) os sp e \<Rightarrow>
         (case tuples_loop T act os sp e [] of
            Ignored_explicit \<Rightarrow> Inl 2
          | Complete tu ex \<Rightarrow>
              (case take_actions F tu (st\<lparr>extras := extras st @ ex\<rparr>) of
                 Inl n \<Rightarrow> Inl n
               | Inr st' \<Rightarrow> consume F T rest st')
          | Wants_next tu act' \<Rightarrow>
              (case rest of
                 (v, Arg) # rest' \<Rightarrow>
                   (case take_actions F (tu @ [(act', [v])]) st of
                      Inl n \<Rightarrow> Inl n
                    | Inr st' \<Rightarrow> consume F T rest' st')
               | _ \<Rightarrow> Inl 2)))"

definition missing_required :: "'a argument list \<Rightarrow> string list \<Rightarrow> string list" where
  "missing_required A sn = map dest (filter (\<lambda>a. required a \<and> dest a \<notin> set sn) A)"

definition parse_args :: "'a float_ops \<Rightarrow> 'a argument list \<Rightarrow> string list \<Rightarrow> 'a parsed" where
  "parse_args F A argv =
    (case classify (option_table A) argv of
       None \<Rightarrow> Exits 2
     | Some items \<Rightarrow>
         (case consume F (option_table A) items \<lparr>ns = defaults A, seen = [], extras = []\<rparr> of
            Inl n \<Rightarrow> Exits n
          | Inr st \<Rightarrow>
              if missing_required A (seen st) \<noteq> [] then Exits 2
              else if extras st \<noteq> [] then Exits 2
              else Namespace (ns st)))"

definition parse_script_input :: "'a float_ops \<Rightarrow> string list \<Rightarrow> 'a parsed" where
  "parse_script_input F argv = parse_args F (script_arguments F) argv"

section \<open>The webcam driver: start-up\<close>

text \<open>
  A frame is the array \<^verbatim>\<open>vid.read()\<close> returns: its \<^verbatim>\<open>shape\<close> and its pixels. When the
  capture yields nothing, \<^verbatim>\<open>vid.read()\<close> returns \<^verbatim>\<open>(False, None)\<close>.
\<close>

record 'px frame =
  shape :: "int list"
  pixels :: 'px

record 'a intrinsics =
  fu :: 'a
  fv :: 'a
  ppu :: 'a
  ppv :: 'a
  width :: int
  height :: int

record 'a camera =
  intrinsics_color :: "'a intrinsics"
  quat_d_c_xyzw :: "int list"
  trans_d_c :: "int list"

definition f_approx :: "('a::inverse) float_ops \<Rightarrow> 'a \<Rightarrow> int \<Rightarrow> 'a" where
  "f_approx F fov_deg w =
    (float_of_int F w / float_of_int F 2) / np_tan F (np_deg2rad F fov_deg / float_of_int F 2)"

definition intrinsics_approx :: "('a::inverse) float_ops \<Rightarrow> 'a \<Rightarrow> int \<Rightarrow> int \<Rightarrow> 'a intrinsics" where
  "intrinsics_approx F fov_deg h w =
    \<lparr>fu = f_approx F fov_deg w, fv = f_approx F fov_deg w,
     ppu = float_of_int F w / float_of_int F 2, ppv = float_of_int F h / float_of_int F 2,
     width = w, height = h\<rparr>"

definition cam_intrinsics :: "'a intrinsics \<Rightarrow> 'a camera" where
  "cam_intrinsics intr =
    \<lparr>intrinsics_color = intr, quat_d_c_xyzw = [0, 0, 0, 1], trans_d_c = [0, 0, 0]\<rparr>"

text \<open>
  Lines 34 to 53 of the script: the first \<^verbatim>\<open>vid.read()\<close>, the unpacking of
  \<^verbatim>\<open>frame.shape\<close> into three names, and the intrinsics from \<^verbatim>\<open>args.fov\<close>. The flag
  \<^verbatim>\<open>ret\<close> is bound and never read.
\<close>

definition unpack_shape :: "'px frame option \<Rightarrow> pyerr + (int \<times> int)" where
  "unpack_shape fr =
    (case fr of
       None \<Rightarrow> Inl (AttributeError ''shape'')
     | Some f \<Rightarrow>
         (case shape f of
            [h, w, c] \<Rightarrow> Inr (h, w)
          | _ \<Rightarrow> Inl (ValueError ''unpack'')))"

definition args_fov :: "'a namespace \<Rightarrow> pyerr + 'a" where
  "args_fov args =
    (case args ''fov'' of
       None \<Rightarrow> Inl (AttributeError ''fov'')
     | Some (ArgFloat x) \<Rightarrow> Inr x
     | Some _ \<Rightarrow> Inl (TypeError ''fov''))"

definition startup :: "('a::inverse) float_ops \<Rightarrow> 'a namespace \<Rightarrow> bool \<times> 'px frame option
    \<Rightarrow> pyerr + 'a camera" where
  "startup F args rd =
    (case rd of (ret, fr) \<Rightarrow>
      and_then (unpack_shape fr) (\<lambda>(h, w).
      and_then (args_fov args) (\<lambda>fov_deg.
      Inr (cam_intrinsics (intrinsics_approx F fov_deg h w)))))"

section \<open>The webcam driver: the frame loop\<close>

text \<open>
  The state of the loop: the script's variables \<^verbatim>\<open>first\<close>, \<^verbatim>\<open>tracking\<close>, \<^verbatim>\<open>i\<close>,
  \<^verbatim>\<open>ret\<close>, \<^verbatim>\<open>frame\<close> and \<^verbatim>\<open>cam_intrinsics\<close>, and the attributes of the tracker's
  objects that the script assigns or reads: \<^verbatim>\<open>color_camera.image\<close> and
  \<^verbatim>\<open>body.body2world_pose\<close>, and the argument of the last \<^verbatim>\<open>UpdateViewer\<close> call.
  The pose is a value of an abstract type \<open>'p\<close>.
\<close>

record ('a, 'px, 'p) state =
  st_cam :: "'a camera"
  st_first :: bool
  st_tracking :: bool
  st_i :: int
  st_ret :: bool
  st_frame :: "'px frame option"
  st_image :: "'px frame option"
  st_pose :: 'p
  st_viewer :: "int option"

text \<open>
  What the outside world answers in one iteration: the result of \<^verbatim>\<open>vid.read()\<close>, of
  \<^verbatim>\<open>tracker.UpdateCameras(True)\<close> and of \<^verbatim>\<open>cv2.waitKey(1)\<close>, and the pose that
  \<^verbatim>\<open>tracker.ExecuteTrackingStep(i)\<close> leaves in \<^verbatim>\<open>body.body2world_pose\<close> when the
  script calls it.
\<close>

record ('px, 'p) tick =
  read_ret :: bool
  read_frame :: "'px frame option"
  update_cameras :: bool
  wait_key :: int
  tracked_pose :: 'p

datatype signal = Continue | Break | Raise pyerr

definition images_error :: pyerr where
  "images_error = ValueError ''Something is wrong with the provided images''"

definition key_handling :: "'p \<Rightarrow> int \<Rightarrow> ('a, 'px, 'p) state \<Rightarrow> ('a, 'px, 'p) state" where
  "key_handling body2world_pose k s =
    (let s1 = (if st_first s \<or> k = ord CHR ''d''
               then s\<lparr>st_pose := body2world_pose, st_first := False, st_tracking := False\<rparr>
               else s)
     in if k = ord CHR ''x'' then s1\<lparr>st_tracking := True\<rparr> else s1)"

definition loop_body :: "'p \<Rightarrow> ('a, 'px, 'p) state \<Rightarrow> ('px, 'p) tick
    \<Rightarrow> signal \<times> ('a, 'px, 'p) state" where
  "loop_body body2world_pose s t =
    (let s1 = s\<lparr>st_ret := read_ret t, st_frame := read_frame t, st_image := read_frame t\<rparr>
     in if \<not> update_cameras t then (Raise images_error, s1)
        else
          let k = wait_key t;
              s2 = key_handling body2world_pose k s1
          in if k = ord CHR ''q'' then (Break, s2)
             else
               let s3 = (if st_tracking s2 then s2\<lparr>st_pose := tracked_pose t\<rparr> else s2);
                   s4 = s3\<lparr>st_i := st_i s3 + 1\<rparr>
               in (Continue, s4\<lparr>st_viewer := Some (st_i s4)\<rparr>))"

text \<open>
  The loop is \<^verbatim>\<open>while True\<close>: it runs as long as the world answers. A run over a finite
  list of answers ends \<open>Raised\<close> (an exception left the loop), \<open>Finished\<close> (the loop was
  left by \<^verbatim>\<open>break\<close>) or \<open>Running\<close> (the answers are used up and the loop still runs).
\<close>

datatype ('a, 'px, 'p) outcome =
    Raised pyerr
  | Finished "('a, 'px, 'p) state"
  | Running "('a, 'px, 'p) state"

fun run_loop :: "'p \<Rightarrow> ('a, 'px, 'p) state \<Rightarrow> ('px, 'p) tick list \<Rightarrow> ('a, 'px, 'p) outcome" where
  "run_loop body2world_pose s [] = Running s"
| "run_loop body2world_pose s (t # ts) =
    (case loop_body body2world_pose s t of
       (Raise e, s') \<Rightarrow> Raised e
     | (Break, s') \<Rightarrow> Finished s'
     | (Continue, s') \<Rightarrow> run_loop body2world_pose s' ts)"

definition initial_state :: "'a camera \<Rightarrow> bool \<times> 'px frame option \<Rightarrow> 'p \<Rightarrow> ('a, 'px, 'p) state" where
  "initial_state cam rd pose0 =
    \<lparr>st_cam = cam, st_first = True, st_tracking = False, st_i = 0,
     st_ret = fst rd, st_frame = snd rd, st_image = None, st_pose = pose0, st_viewer = None\<rparr>"

text \<open>
  The script after line 31, for the namespace \<open>args\<close> that \<^verbatim>\<open>parse_script_input\<close>
  returned: the start-up, then the loop. \<open>pose0\<close> is the pose of the body that
  \<^verbatim>\<open>setup_single_object_tracker\<close> returns, \<open>body2world_pose\<close> the matrix lines 60 to 65
  compute, once, from constants.
\<close>

definition script_body :: "('a::inverse) float_ops \<Rightarrow> 'a namespace \<Rightarrow> bool \<times> 'px frame option
    \<Rightarrow> 'p \<Rightarrow> 'p \<Rightarrow> ('px, 'p) tick list \<Rightarrow> ('a, 'px, 'p) outcome" where
  "script_body F args rd pose0 body2world_pose ticks =
    (case startup F args rd of
       Inl e \<Rightarrow> Raised e
     | Inr cam \<Rightarrow> run_loop body2world_pose (initial_state cam rd pose0) ticks)"

text \<open>The script from its first line to its last.\<close>

definition script :: "('a::inverse) float_ops \<Rightarrow> string list \<Rightarrow> bool \<times> 'px frame option \<Rightarrow> 'p \<Rightarrow> 'p
    \<Rightarrow> ('px, 'p) tick list \<Rightarrow> ('a, 'px, 'p) outcome" where
  "script F argv rd pose0 body2world_pose ticks =
    (case parse_script_input F argv of
       Exits n \<Rightarrow> Raised (SystemExit n)
     | Namespace args \<Rightarrow> script_body F args rd pose0 body2world_pose ticks)"

section \<open>The cost library: objects and the libraries behind them\<close>

text \<open>
  A pinocchio model, as far as \<^verbatim>\<open>costs.py\<close> reads it: \<^verbatim>\<open>rmodel.nv\<close>,
  \<^verbatim>\<open>rmodel.nframes\<close> and \<^verbatim>\<open>rmodel.joints[i].nq\<close>. The data object \<^verbatim>\<open>rdata\<close> and the
  viewer \<^verbatim>\<open>viz\<close> are mutable objects of the libraries: the scripts hold references to
  them (\<open>ref\<close>), and what they contain is part of the world \<open>'w\<close> that every library
  call may change.
\<close>

record pin_model =
  nv :: nat
  nframes :: nat
  joints_nq :: "nat list"

type_synonym ref = nat

datatype reference_frame = WORLD | LOCAL | LOCAL_WORLD_ALIGNED

datatype ('a, 's) pyval =
    PNone
  | PBool bool
  | PInt int
  | PFloat 'a
  | PArr "'a list"  \<comment> \<open>a one-dimensional numpy array\<close>
  | PModel pin_model
  | PRef ref
  | PSE3 's
  | PGlobal string  \<comment> \<open>a module, class or function bound at module level\<close>

text \<open>An instance is its \<^verbatim>\<open>__dict__\<close>: the attributes assigned through \<^verbatim>\<open>self\<close>.\<close>

type_synonym ('a, 's) obj = "string \<rightharpoonup> ('a, 's) pyval"

definition getattr :: "('a, 's) obj \<Rightarrow> string \<Rightarrow> pyerr + ('a, 's) pyval" where
  "getattr self name = (case self name of None \<Rightarrow> Inl (AttributeError name) | Some v \<Rightarrow> Inr v)"

text \<open>
  The library functions are typed. An attribute read for one of them goes through a
  projection, which raises \<^verbatim>\<open>TypeError\<close> on a value of another type; no constructor
  below stores such a value.
\<close>

definition attr_model :: "('a, 's) obj \<Rightarrow> string \<Rightarrow> pyerr + pin_model" where
  "attr_model self name =
    and_then (getattr self name) (\<lambda>v. case v of PModel m \<Rightarrow> Inr m | _ \<Rightarrow> Inl (TypeError name))"

definition attr_ref :: "('a, 's) obj \<Rightarrow> string \<Rightarrow> pyerr + ref" where
  "attr_ref self name =
    and_then (getattr self name) (\<lambda>v. case v of PRef r \<Rightarrow> Inr r | _ \<Rightarrow> Inl (TypeError name))"

definition attr_int :: "('a, 's) obj \<Rightarrow> string \<Rightarrow> pyerr + int" where
  "attr_int self name =
    and_then (getattr self name) (\<lambda>v. case v of PInt i \<Rightarrow> Inr i | _ \<Rightarrow> Inl (TypeError name))"

definition attr_bool :: "('a, 's) obj \<Rightarrow> string \<Rightarrow> pyerr + bool" where
  "attr_bool self name =
    and_then (getattr self name) (\<lambda>v. case v of PBool b \<Rightarrow> Inr b | _ \<Rightarrow> Inl (TypeError name))"

definition attr_arr :: "('a, 's) obj \<Rightarrow> string \<Rightarrow> pyerr + 'a list" where
  "attr_arr self name =
    and_then (getattr self name) (\<lambda>v. case v of PArr xs \<Rightarrow> Inr xs | _ \<Rightarrow> Inl (TypeError name))"

definition attr_se3 :: "('a, 's) obj \<Rightarrow> string \<Rightarrow> pyerr + 's" where
  "attr_se3 self name =
    and_then (getattr self name) (\<lambda>v. case v of PSE3 m \<Rightarrow> Inr m | _ \<Rightarrow> Inl (TypeError name))"

text \<open>
  What pinocchio, numpy (on matrices), vizutils and \<^verbatim>\<open>time\<close> compute. Matrices \<open>'m\<close> and
  placements \<open>'s\<close> are values of the libraries. A function that is given \<^verbatim>\<open>rdata\<close> or
  \<^verbatim>\<open>viz\<close> returns the world it leaves.
\<close>

record ('a, 'w, 'm, 's) pinocchio =
  framesForwardKinematics :: "pin_model \<Rightarrow> ref \<Rightarrow> 'a list \<Rightarrow> 'w \<Rightarrow> 'w"
  forwardKinematics :: "pin_model \<Rightarrow> ref \<Rightarrow> 'a list \<Rightarrow> 'w \<Rightarrow> 'w"
  computeJointJacobians :: "pin_model \<Rightarrow> ref \<Rightarrow> 'a list \<Rightarrow> 'w \<Rightarrow> 'w"
  updateFramePlacement :: "pin_model \<Rightarrow> ref \<Rightarrow> int \<Rightarrow> 'w \<Rightarrow> 's \<times> 'w"
  getFrameJacobian :: "pin_model \<Rightarrow> ref \<Rightarrow> int \<Rightarrow> reference_frame \<Rightarrow> 'w \<Rightarrow> 'm \<times> 'w"
  computeFrameJacobian :: "pin_model \<Rightarrow> ref \<Rightarrow> 'a list \<Rightarrow> int \<Rightarrow> 'w \<Rightarrow> 'm \<times> 'w"
  computeGeneralizedGravity :: "pin_model \<Rightarrow> ref \<Rightarrow> 'a list \<Rightarrow> 'w \<Rightarrow> 'a list \<times> 'w"
  computeGeneralizedGravityDerivatives :: "pin_model \<Rightarrow> ref \<Rightarrow> 'a list \<Rightarrow> 'w \<Rightarrow> 'm \<times> 'w"
  aba :: "pin_model \<Rightarrow> ref \<Rightarrow> 'a list \<Rightarrow> 'a list \<Rightarrow> 'a list \<Rightarrow> 'w \<Rightarrow> 'a list \<times> 'w"
  computeABADerivatives :: "pin_model \<Rightarrow> ref \<Rightarrow> 'a list \<Rightarrow> 'a list \<Rightarrow> 'a list \<Rightarrow> 'w \<Rightarrow> 'w"
  computeRNEADerivatives :: "pin_model \<Rightarrow> ref \<Rightarrow> 'a list \<Rightarrow> 'a list \<Rightarrow> 'a list \<Rightarrow> 'w \<Rightarrow> 'w"
  randomConfiguration :: "pin_model \<Rightarrow> 'w \<Rightarrow> 'a list \<times> 'w"
  difference :: "pin_model \<Rightarrow> 'a list \<Rightarrow> 'a list \<Rightarrow> 'a list"
  dDifference :: "pin_model \<Rightarrow> 'a list \<Rightarrow> 'a list \<Rightarrow> 'm \<times> 'm"
  data_oMf :: "'w \<Rightarrow> ref \<Rightarrow> int \<Rightarrow> 's"  \<comment> \<open>\<^verbatim>\<open>rdata.oMf[i]\<close>\<close>
  data_dtau_dq :: "'w \<Rightarrow> ref \<Rightarrow> 'm"
  data_ddq_dq :: "'w \<Rightarrow> ref \<Rightarrow> 'm"
  data_ddq :: "'w \<Rightarrow> ref \<Rightarrow> 'a list"
  data_tau :: "'w \<Rightarrow> ref \<Rightarrow> 'a list"
  default_Mtarget :: 's
    \<comment> \<open>\<^verbatim>\<open>pin.SE3(pin.utils.rotate('x', np.pi / 4), np.array([0.5, 0.1, 0.27]))\<close>\<close>
  se3_translation :: "'s \<Rightarrow> 'a list"  \<comment> \<open>\<^verbatim>\<open>M.translation\<close>\<close>
  se3_inverse :: "'s \<Rightarrow> 's"  \<comment> \<open>\<^verbatim>\<open>M.inverse()\<close>\<close>
  se3_mul :: "'s \<Rightarrow> 's \<Rightarrow> 's"  \<comment> \<open>\<^verbatim>\<open>M1 * M2\<close>\<close>
  log_vector :: "'s \<Rightarrow> 'a list"  \<comment> \<open>\<^verbatim>\<open>pin.log(M).vector\<close>\<close>
  Jlog6 :: "'s \<Rightarrow> 'm"
  SE3ToXYZQUATtuple :: "'s \<Rightarrow> 'a list"
  mat_T :: "'m \<Rightarrow> 'm"  \<comment> \<open>\<^verbatim>\<open>A.T\<close>\<close>
  mat_rows3 :: "'m \<Rightarrow> 'm"  \<comment> \<open>\<^verbatim>\<open>A[:3, :]\<close>\<close>
  mat_scale :: "'a \<Rightarrow> 'm \<Rightarrow> 'm"  \<comment> \<open>\<^verbatim>\<open>c * A\<close>\<close>
  mat_neg :: "'m \<Rightarrow> 'm"  \<comment> \<open>\<^verbatim>\<open>-A\<close>\<close>
  matmul :: "'m \<Rightarrow> 'm \<Rightarrow> 'm"  \<comment> \<open>\<^verbatim>\<open>A @ B\<close>\<close>
  matvec :: "'m \<Rightarrow> 'a list \<Rightarrow> 'a list"  \<comment> \<open>\<^verbatim>\<open>A @ v\<close>\<close>
  np_dot :: "'a list \<Rightarrow> 'a list \<Rightarrow> 'a"
  applyViewerConfiguration :: "ref \<Rightarrow> string \<Rightarrow> 'a list \<Rightarrow> 'w \<Rightarrow> 'w"
  viz_display :: "ref \<Rightarrow> 'a list \<Rightarrow> 'w \<Rightarrow> 'w"  \<comment> \<open>\<^verbatim>\<open>viz.display(q)\<close>\<close>
  time_sleep :: "'a \<Rightarrow> 'w \<Rightarrow> 'w"

subsection \<open>numpy on one-dimensional arrays\<close>

text \<open>
  \<^verbatim>\<open>x - y\<close> broadcasts an array of length one and raises \<^verbatim>\<open>ValueError\<close> when the
  lengths differ otherwise. \<^verbatim>\<open>x ** 2\<close> squares every entry. Python's \<^verbatim>\<open>sum\<close> adds the
  entries from left to right, starting from the int 0.
\<close>

definition np_sub :: "('a::minus) list \<Rightarrow> 'a list \<Rightarrow> pyerr + 'a list" where
  "np_sub xs ys =
    (if length xs = length ys then Inr (map2 (-) xs ys)
     else if length xs = 1 then Inr (map (\<lambda>y. hd xs - y) ys)
     else if length ys = 1 then Inr (map (\<lambda>x. x - hd ys) xs)
     else Inl (ValueError ''operands could not be broadcast together''))"

definition np_square :: "('a::times) list \<Rightarrow> 'a list" where
  "np_square xs = map (\<lambda>x. x * x) xs"

definition py_sum :: "('a::plus) float_ops \<Rightarrow> 'a list \<Rightarrow> 'a" where
  "py_sum F xs = foldl (+) (float_of_int F 0) xs"

definition np_scale :: "('a::times) float_ops \<Rightarrow> int \<Rightarrow> 'a list \<Rightarrow> 'a list" where
  "np_scale F c xs = map (\<lambda>x. float_of_int F c * x) xs"

definition np_neg :: "('a::uminus) list \<Rightarrow> 'a list" where
  "np_neg xs = map uminus xs"

definition np_zeros :: "'a float_ops \<Rightarrow> nat \<Rightarrow> 'a list" where
  "np_zeros F n = replicate n (float_of_int F 0)"

text \<open>\<^verbatim>\<open>g[k:] = v\<close> on an array \<open>g\<close>: \<open>v\<close> has the length of the slice, or length one.\<close>

definition set_slice_from :: "nat \<Rightarrow> 'a list \<Rightarrow> 'a list \<Rightarrow> pyerr + 'a list" where
  "set_slice_from k g v =
    (let n = length g - k in
     if length v = n then Inr (take k g @ v)
     else if length v = 1 then Inr (take k g @ replicate n (hd v))
     else Inl (ValueError ''could not broadcast input array''))"

subsection \<open>Names\<close>

text \<open>
  The names bound at module level in \<^verbatim>\<open>costs.py\<close>: its imports, its classes and the
  names its \<^verbatim>\<open>__main__\<close> block binds. A name a method reads without assigning it is
  looked up there and then among the builtins; \<open>load_global\<close> is applied to the names
  the methods read, of which \<^verbatim>\<open>sum\<close> is the one builtin.
\<close>

definition module_names :: "string list" where
  "module_names =
    [''time'', ''np'', ''pin'', ''det'', ''eig'', ''inv'', ''norm'', ''pinv'', ''svd'', ''vizutils'',
     ''Cost3d'', ''Cost6d'', ''CostPosture'', ''CostGravity'', ''CostWeightedGravity'',
     ''CostPostureDiff'',
     ''robex'', ''copy'', ''Tdiff1'', ''robot'', ''q'', ''Tdiffq'', ''CostClass'', ''cost'',
     ''Tg'', ''Tgn'']"

definition load_global :: "string \<Rightarrow> pyerr + ('a, 's) pyval" where
  "load_global name =
    (if name \<in> set module_names \<or> name = ''sum'' then Inr (PGlobal name)
     else Inl (NameError name))"

section \<open>The cost classes\<close>

text \<open>
  A method takes \<^verbatim>\<open>self\<close>, the configuration \<open>q\<close> and the world, and returns its
  value, \<^verbatim>\<open>self\<close> as it leaves it, and the world as the library calls leave it.
\<close>

type_synonym ('r, 'a, 's, 'w) method_result = "pyerr + ('r \<times> ('a, 's) obj \<times> 'w)"

subsection \<open>Cost3d\<close>

definition Cost3d_init :: "'a float_ops \<Rightarrow> pin_model \<Rightarrow> ref \<Rightarrow> int option \<Rightarrow> 'a list option
    \<Rightarrow> ref option \<Rightarrow> ('a, 's) obj" where
  "Cost3d_init F rmodel rdata frame_index ptarget viz =
    Map.empty(
      ''rmodel'' \<mapsto> PModel rmodel,
      ''rdata'' \<mapsto> PRef rdata,
      ''ptarget'' \<mapsto> PArr (case ptarget of
          Some p \<Rightarrow> p
        | None \<Rightarrow> [float_lit F ''0.5'', float_lit F ''0.1'', float_lit F ''0.27'']),
      ''frame_index'' \<mapsto> PInt (case frame_index of
          Some i \<Rightarrow> i
        | None \<Rightarrow> int (nframes rmodel) - 1),
      ''viz'' \<mapsto> (case viz of Some v \<Rightarrow> PRef v | None \<Rightarrow> PNone))"

definition Cost3d_residual :: "('a::minus, 'w, 'm, 's) pinocchio \<Rightarrow> ('a, 's) obj \<Rightarrow> 'a list \<Rightarrow> 'w
    \<Rightarrow> ('a list, 'a, 's, 'w) method_result" where
  "Cost3d_residual P self q w =
    and_then (attr_model self ''rmodel'') (\<lambda>m.
    and_then (attr_ref self ''rdata'') (\<lambda>d.
    let w1 = framesForwardKinematics P m d q w in
    and_then (attr_int self ''frame_index'') (\<lambda>i.
    let M = data_oMf P w1 d i in
    and_then (attr_arr self ''ptarget'') (\<lambda>p.
    and_then (np_sub (se3_translation P M) p) (\<lambda>r.
    Inr (r, self, w1))))))"

definition Cost3d_calc :: "('a::{plus,minus,times}) float_ops \<Rightarrow> ('a, 'w, 'm, 's) pinocchio
    \<Rightarrow> ('a, 's) obj \<Rightarrow> 'a list \<Rightarrow> 'w \<Rightarrow> ('a, 'a, 's, 'w) method_result" where
  "Cost3d_calc F P self q w =
    and_then (Cost3d_residual P self q w) (\<lambda>(r, self', w').
    Inr (py_sum F (np_square r), self', w'))"

definition Cost3d_callback :: "'a float_ops \<Rightarrow> ('a, 'w, 'm, 's) pinocchio
    \<Rightarrow> ('a, 's) obj \<Rightarrow> 'a list \<Rightarrow> 'w \<Rightarrow> (unit, 'a, 's, 'w) method_result" where
  "Cost3d_callback F P self q w =
    and_then (getattr self ''viz'') (\<lambda>v.
    case v of
      PNone \<Rightarrow> Inr ((), self, w)
    | _ \<Rightarrow>
        and_then (attr_model self ''rmodel'') (\<lambda>m.
        and_then (attr_ref self ''rdata'') (\<lambda>d.
        let w1 = framesForwardKinematics P m d q w in
        and_then (attr_int self ''frame_index'') (\<lambda>i.
        let M = data_oMf P w1 d i in
        and_then (attr_ref self ''viz'') (\<lambda>vz.
        let w2 = applyViewerConfiguration P vz ''world/ball'' (SE3ToXYZQUATtuple P M) w1 in
        and_then (attr_arr self ''ptarget'') (\<lambda>p.
        let w3 = applyViewerConfiguration P vz ''world/box''
                   (p @ map (float_of_int F) [1, 0, 0, 0]) w2;
            w4 = viz_display P vz q w3;
            w5 = time_sleep P (float_lit F ''1e-2'') w4
        in Inr ((), self, w5)))))))"

definition Cost3d_calcDiff :: "('a::minus) float_ops \<Rightarrow> ('a, 'w, 'm, 's) pinocchio
    \<Rightarrow> ('a, 's) obj \<Rightarrow> 'a list \<Rightarrow> 'w \<Rightarrow> ('a list, 'a, 's, 'w) method_result" where
  "Cost3d_calcDiff F P self q w =
    and_then (attr_model self ''rmodel'') (\<lambda>m.
    and_then (attr_ref self ''rdata'') (\<lambda>d.
    let w1 = framesForwardKinematics P m d q w;
        w2 = computeJointJacobians P m d q w1
    in
    and_then (attr_int self ''frame_index'') (\<lambda>i.
    let M = data_oMf P w2 d i;
        (J0, w3) = getFrameJacobian P m d i LOCAL_WORLD_ALIGNED w2;
        J = mat_rows3 P J0
    in
    and_then (attr_arr self ''ptarget'') (\<lambda>p.
    and_then (np_sub (se3_translation P M) p) (\<lambda>r.
    Inr (matvec P (mat_scale P (float_of_int F 2) (mat_T P J)) r, self, w3))))))"

subsection \<open>Cost6d\<close>

definition Cost6d_init :: "('a, 'w, 'm, 's) pinocchio \<Rightarrow> pin_model \<Rightarrow> ref \<Rightarrow> int option \<Rightarrow> 's option
    \<Rightarrow> ref option \<Rightarrow> ('a, 's) obj" where
  "Cost6d_init P rmodel rdata frame_index Mtarget viz =
    Map.empty(
      ''rmodel'' \<mapsto> PModel rmodel,
      ''rdata'' \<mapsto> PRef rdata,
      ''Mtarget'' \<mapsto> PSE3 (case Mtarget of Some M \<Rightarrow> M | None \<Rightarrow> default_Mtarget P),
      ''frame_index'' \<mapsto> PInt (case frame_index of
          Some i \<Rightarrow> i
        | None \<Rightarrow> int (nframes rmodel) - 1),
      ''viz'' \<mapsto> (case viz of Some v \<Rightarrow> PRef v | None \<Rightarrow> PNone))"

text \<open>\<^verbatim>\<open>residual\<close> assigns \<^verbatim>\<open>self.deltaM\<close>, which \<^verbatim>\<open>calcDiff\<close> reads after calling it.\<close>

definition Cost6d_residual :: "('a, 'w, 'm, 's) pinocchio \<Rightarrow> ('a, 's) obj \<Rightarrow> 'a list \<Rightarrow> 'w
    \<Rightarrow> ('a list, 'a, 's, 'w) method_result" where
  "Cost6d_residual P self q w =
    and_then (attr_model self ''rmodel'') (\<lambda>m.
    and_then (attr_ref self ''rdata'') (\<lambda>d.
    let w1 = forwardKinematics P m d q w in
    and_then (attr_int self ''frame_index'') (\<lambda>i.
    let (M, w2) = updateFramePlacement P m d i w1 in
    and_then (attr_se3 self ''Mtarget'') (\<lambda>Mt.
    let self' = self(''deltaM'' \<mapsto> PSE3 (se3_mul P (se3_inverse P Mt) M)) in
    and_then (attr_se3 self' ''deltaM'') (\<lambda>dM.
    Inr (log_vector P dM, self', w2))))))"

definition Cost6d_calc :: "('a::{plus,times}) float_ops \<Rightarrow> ('a, 'w, 'm, 's) pinocchio
    \<Rightarrow> ('a, 's) obj \<Rightarrow> 'a list \<Rightarrow> 'w \<Rightarrow> ('a, 'a, 's, 'w) method_result" where
  "Cost6d_calc F P self q w =
    and_then (Cost6d_residual P self q w) (\<lambda>(r, self', w').
    Inr (py_sum F (np_square r), self', w'))"

text \<open>
  \<^verbatim>\<open>callback\<close> has the parameters \<^verbatim>\<open>self\<close> and \<^verbatim>\<open>q\<close> and assigns no name, so the
  \<^verbatim>\<open>M\<close> of its first call is read as a global.
\<close>

definition Cost6d_callback :: "'a float_ops \<Rightarrow> ('a, 'w, 'm, 's) pinocchio
    \<Rightarrow> ('a, 's) obj \<Rightarrow> 'a list \<Rightarrow> 'w \<Rightarrow> (unit, 'a, 's, 'w) method_result" where
  "Cost6d_callback F P self q w =
    and_then (getattr self ''viz'') (\<lambda>v.
    case v of
      PNone \<Rightarrow> Inr ((), self, w)
    | _ \<Rightarrow>
        and_then (attr_ref self ''viz'') (\<lambda>vz.
        and_then (load_global ''M'' :: pyerr + ('a, 's) pyval) (\<lambda>Mv.
        and_then (case Mv of PSE3 M \<Rightarrow> Inr M | _ \<Rightarrow> Inl (TypeError ''M'')) (\<lambda>M.
        let w1 = applyViewerConfiguration P vz ''world/ball'' (SE3ToXYZQUATtuple P M) w in
        and_then (attr_se3 self ''Mtarget'') (\<lambda>Mt.
        let w2 = applyViewerConfiguration P vz ''world/box'' (SE3ToXYZQUATtuple P Mt) w1;
            w3 = viz_display P vz q w2;
            w4 = time_sleep P (float_lit F ''1e-2'') w3
        in Inr ((), self, w4))))))"

definition Cost6d_calcDiff :: "'a float_ops \<Rightarrow> ('a, 'w, 'm, 's) pinocchio
    \<Rightarrow> ('a, 's) obj \<Rightarrow> 'a list \<Rightarrow> 'w \<Rightarrow> ('a list, 'a, 's, 'w) method_result" where
  "Cost6d_calcDiff F P self q w =
    and_then (attr_model self ''rmodel'') (\<lambda>m.
    and_then (attr_ref self ''rdata'') (\<lambda>d.
    and_then (attr_int self ''frame_index'') (\<lambda>i.
    let (J, w1) = computeFrameJacobian P m d q i w in
    and_then (Cost6d_residual P self q w1) (\<lambda>(r, self', w2).
    and_then (attr_se3 self' ''deltaM'') (\<lambda>dM.
    let Jlog = Jlog6 P dM in
    Inr (matvec P (matmul P (mat_scale P (float_of_int F 2) (mat_T P J)) (mat_T P Jlog)) r,
         self', w2))))))"

subsection \<open>CostPosture\<close>

text \<open>
  The constructor stores \<^verbatim>\<open>qref\<close> and \<^verbatim>\<open>removeFreeFlyer\<close> and nothing else: its
  comment says that \<^verbatim>\<open>viz\<close>, \<^verbatim>\<open>rmodel\<close> and \<^verbatim>\<open>rdata\<close> are taken to respect the API.
  \<^verbatim>\<open>rmodel.joints[1]\<close> raises \<^verbatim>\<open>IndexError\<close> on a model with no joint after the
  universe.
\<close>

definition CostPosture_init :: "('a, 'w, 'm, 's) pinocchio \<Rightarrow> pin_model \<Rightarrow> ref \<Rightarrow> 'a list option
    \<Rightarrow> ref option \<Rightarrow> 'w \<Rightarrow> pyerr + (('a, 's) obj \<times> 'w)" where
  "CostPosture_init P rmodel rdata qref viz w =
    (let (qr, w1) = (case qref of Some x \<Rightarrow> (x, w) | None \<Rightarrow> randomConfiguration P rmodel w) in
     if 1 < length (joints_nq rmodel)
     then Inr (Map.empty(
         ''qref'' \<mapsto> PArr qr,
         ''removeFreeFlyer'' \<mapsto> PBool (joints_nq rmodel ! 1 = 7)), w1)
     else Inl (IndexError ''joints''))"

definition CostPosture_residual :: "('a::minus, 's) obj \<Rightarrow> 'a list \<Rightarrow> 'w
    \<Rightarrow> ('a list, 'a, 's, 'w) method_result" where
  "CostPosture_residual self q w =
    and_then (attr_bool self ''removeFreeFlyer'') (\<lambda>b.
    and_then (attr_arr self ''qref'') (\<lambda>qr.
    and_then (np_sub q qr) (\<lambda>r.
    Inr (if b then drop 7 r else r, self, w))))"

definition CostPosture_calc :: "('a::{plus,minus,times}) float_ops \<Rightarrow> ('a, 's) obj \<Rightarrow> 'a list \<Rightarrow> 'w
    \<Rightarrow> ('a, 'a, 's, 'w) method_result" where
  "CostPosture_calc F self q w =
    and_then (CostPosture_residual self q w) (\<lambda>(r, self', w').
    Inr (py_sum F (np_square r), self', w'))"

definition CostPosture_calcDiff :: "('a::{minus,times}) float_ops \<Rightarrow> ('a, 's) obj \<Rightarrow> 'a list \<Rightarrow> 'w
    \<Rightarrow> ('a list, 'a, 's, 'w) method_result" where
  "CostPosture_calcDiff F self q w =
    and_then (attr_bool self ''removeFreeFlyer'') (\<lambda>b.
    if b then
      and_then (attr_model self ''rmodel'') (\<lambda>m.
      let g = np_zeros F (nv m) in
      and_then (CostPosture_residual self q w) (\<lambda>(r, self', w').
      and_then (set_slice_from 6 g (np_scale F 2 r)) (\<lambda>g'.
      Inr (g', self', w'))))
    else
      and_then (CostPosture_residual self q w) (\<lambda>(r, self', w').
      Inr (np_scale F 2 r, self', w')))"

subsection \<open>CostGravity\<close>

definition CostGravity_init :: "pin_model \<Rightarrow> ref \<Rightarrow> ref option \<Rightarrow> ('a, 's) obj" where
  "CostGravity_init rmodel rdata viz =
    Map.empty(
      ''rmodel'' \<mapsto> PModel rmodel,
      ''rdata'' \<mapsto> PRef rdata,
      ''viz'' \<mapsto> (case viz of Some v \<Rightarrow> PRef v | None \<Rightarrow> PNone))"

definition CostGravity_residual :: "('a, 'w, 'm, 's) pinocchio \<Rightarrow> ('a, 's) obj \<Rightarrow> 'a list \<Rightarrow> 'w
    \<Rightarrow> ('a list, 'a, 's, 'w) method_result" where
  "CostGravity_residual P self q w =
    and_then (attr_model self ''rmodel'') (\<lambda>m.
    and_then (attr_ref self ''rdata'') (\<lambda>d.
    let (g, w1) = computeGeneralizedGravity P m d q w in
    Inr (g, self, w1)))"

definition CostGravity_calc :: "('a::{plus,times}) float_ops \<Rightarrow> ('a, 'w, 'm, 's) pinocchio
    \<Rightarrow> ('a, 's) obj \<Rightarrow> 'a list \<Rightarrow> 'w \<Rightarrow> ('a, 'a, 's, 'w) method_result" where
  "CostGravity_calc F P self q w =
    and_then (CostGravity_residual P self q w) (\<lambda>(r, self', w').
    Inr (py_sum F (np_square r), self', w'))"

definition CostGravity_calcDiff :: "'a float_ops \<Rightarrow> ('a, 'w, 'm, 's) pinocchio
    \<Rightarrow> ('a, 's) obj \<Rightarrow> 'a list \<Rightarrow> 'w \<Rightarrow> ('a list, 'a, 's, 'w) method_result" where
  "CostGravity_calcDiff F P self q w =
    and_then (CostGravity_residual P self q w) (\<lambda>(g, self', w1).
    and_then (attr_model self' ''rmodel'') (\<lambda>m.
    and_then (attr_ref self' ''rdata'') (\<lambda>d.
    let (G, w2) = computeGeneralizedGravityDerivatives P m d q w1 in
    Inr (matvec P (mat_scale P (float_of_int F 2) (mat_T P G)) g, self', w2))))"

subsection \<open>CostWeightedGravity\<close>

text \<open>
  The class states its cost in its docstring, \<^verbatim>\<open>g.T*inv(M)*g\<close>, and defines
  \<^verbatim>\<open>__init__\<close>, \<^verbatim>\<open>calc\<close> and \<^verbatim>\<open>calcDiff\<close> only.
\<close>

definition CostWeightedGravity_init :: "'a float_ops \<Rightarrow> pin_model \<Rightarrow> ref \<Rightarrow> ref option
    \<Rightarrow> ('a, 's) obj" where
  "CostWeightedGravity_init F rmodel rdata viz =
    Map.empty(
      ''rmodel'' \<mapsto> PModel rmodel,
      ''rdata'' \<mapsto> PRef rdata,
      ''viz'' \<mapsto> (case viz of Some v \<Rightarrow> PRef v | None \<Rightarrow> PNone),
      ''v0'' \<mapsto> PArr (np_zeros F (nv rmodel)))"

definition CostWeightedGravity_calc :: "('a::uminus, 'w, 'm, 's) pinocchio \<Rightarrow> ('a, 's) obj
    \<Rightarrow> 'a list \<Rightarrow> 'w \<Rightarrow> ('a, 'a, 's, 'w) method_result" where
  "CostWeightedGravity_calc P self q w =
    and_then (attr_model self ''rmodel'') (\<lambda>m.
    and_then (attr_ref self ''rdata'') (\<lambda>d.
    let (g, w1) = computeGeneralizedGravity P m d q w in
    and_then (attr_arr self ''v0'') (\<lambda>v0.
    let (a, w2) = aba P m d q v0 v0 w1;
        taugrav = np_neg a
    in Inr (np_dot P taugrav g, self, w2))))"

definition CostWeightedGravity_calcDiff :: "('a::minus, 'w, 'm, 's) pinocchio \<Rightarrow> ('a, 's) obj
    \<Rightarrow> 'a list \<Rightarrow> 'w \<Rightarrow> ('a list, 'a, 's, 'w) method_result" where
  "CostWeightedGravity_calcDiff P self q w =
    and_then (attr_model self ''rmodel'') (\<lambda>m.
    and_then (attr_ref self ''rdata'') (\<lambda>d.
    and_then (attr_arr self ''v0'') (\<lambda>v0.
    let w1 = computeABADerivatives P m d q v0 v0 w;
        w2 = computeRNEADerivatives P m d q v0 v0 w1
    in
    and_then (np_sub (matvec P (mat_neg P (mat_T P (data_dtau_dq P w2 d))) (data_ddq P w2 d))
                     (matvec P (mat_T P (data_ddq_dq P w2 d)) (data_tau P w2 d))) (\<lambda>r.
    Inr (r, self, w2)))))"

subsection \<open>CostPostureDiff\<close>

definition CostPostureDiff_init :: "('a, 'w, 'm, 's) pinocchio \<Rightarrow> pin_model \<Rightarrow> ref \<Rightarrow> 'a list option
    \<Rightarrow> ref option \<Rightarrow> 'w \<Rightarrow> ('a, 's) obj \<times> 'w" where
  "CostPostureDiff_init P rmodel rdata qref viz w =
    (let (qr, w1) = (case qref of Some x \<Rightarrow> (x, w) | None \<Rightarrow> randomConfiguration P rmodel w) in
     (Map.empty(''rmodel'' \<mapsto> PModel rmodel, ''qref'' \<mapsto> PArr qr), w1))"

definition CostPostureDiff_residual :: "('a, 'w, 'm, 's) pinocchio \<Rightarrow> ('a, 's) obj \<Rightarrow> 'a list \<Rightarrow> 'w
    \<Rightarrow> ('a list, 'a, 's, 'w) method_result" where
  "CostPostureDiff_residual P self q w =
    and_then (attr_model self ''rmodel'') (\<lambda>m.
    and_then (attr_arr self ''qref'') (\<lambda>qr.
    Inr (difference P m q qr, self, w)))"

definition CostPostureDiff_calc :: "('a::{plus,times}) float_ops \<Rightarrow> ('a, 'w, 'm, 's) pinocchio
    \<Rightarrow> ('a, 's) obj \<Rightarrow> 'a list \<Rightarrow> 'w \<Rightarrow> ('a, 'a, 's, 'w) method_result" where
  "CostPostureDiff_calc F P self q w =
    and_then (CostPostureDiff_residual P self q w) (\<lambda>(r, self', w').
    Inr (py_sum F (np_square r), self', w'))"

definition CostPostureDiff_calcDiff :: "'a float_ops \<Rightarrow> ('a, 'w, 'm, 's) pinocchio
    \<Rightarrow> ('a, 's) obj \<Rightarrow> 'a list \<Rightarrow> 'w \<Rightarrow> ('a list, 'a, 's, 'w) method_result" where
  "CostPostureDiff_calcDiff F P self q w =
    and_then (attr_model self ''rmodel'') (\<lambda>m.
    and_then (attr_arr self ''qref'') (\<lambda>qr.
    let (J, J2) = dDifference P m q qr in
    and_then (CostPostureDiff_residual P self q w) (\<lambda>(r, self', w').
    Inr (matvec P (mat_scale P (float_of_int F 2) (mat_T P J)) r, self', w'))))"

subsection \<open>Calling a method of a cost object\<close>

datatype cost_class =
  Cost3d | Cost6d | CostPosture | CostGravity | CostWeightedGravity | CostPostureDiff

text \<open>The methods each class body defines, in the order of the source.\<close>

fun class_methods :: "cost_class \<Rightarrow> string list" where
  "class_methods Cost3d = [''__init__'', ''residual'', ''calc'', ''callback'', ''calcDiff'']"
| "class_methods Cost6d = [''__init__'', ''residual'', ''calc'', ''callback'', ''calcDiff'']"
| "class_methods CostPosture = [''__init__'', ''residual'', ''calc'', ''calcDiff'']"
| "class_methods CostGravity = [''__init__'', ''residual'', ''calc'', ''calcDiff'']"
| "class_methods CostWeightedGravity = [''__init__'', ''calc'', ''calcDiff'']"
| "class_methods CostPostureDiff = [''__init__'', ''residual'', ''calc'', ''calcDiff'']"

definition returning :: "('r \<Rightarrow> ('a, 's) pyval) \<Rightarrow> ('r, 'a, 's, 'w) method_result
    \<Rightarrow> (('a, 's) pyval, 'a, 's, 'w) method_result" where
  "returning wrap r = and_then r (\<lambda>(x, self', w'). Inr (wrap x, self', w'))"

text \<open>
  \<^verbatim>\<open>cost.name(q)\<close> on an instance \<^verbatim>\<open>cost\<close> of class \<open>cls\<close>: \<^verbatim>\<open>AttributeError\<close> when the
  class defines no such method (no instance here has an attribute of a method's name),
  \<^verbatim>\<open>TypeError\<close> for \<^verbatim>\<open>__init__\<close>, which needs more arguments than \<open>q\<close>.
\<close>

definition call_method :: "('a::{plus,minus,times,uminus}) float_ops \<Rightarrow> ('a, 'w, 'm, 's) pinocchio
    \<Rightarrow> cost_class \<Rightarrow> string \<Rightarrow> ('a, 's) obj \<Rightarrow> 'a list \<Rightarrow> 'w
    \<Rightarrow> (('a, 's) pyval, 'a, 's, 'w) method_result" where
  "call_method F P cls name self q w =
    (if name \<notin> set (class_methods cls) then Inl (AttributeError name)
     else if name = ''residual'' then
       returning PArr (case cls of
           Cost3d \<Rightarrow> Cost3d_residual P self q w
         | Cost6d \<Rightarrow> Cost6d_residual P self q w
         | CostPosture \<Rightarrow> CostPosture_residual self q w
         | CostGravity \<Rightarrow> CostGravity_residual P self q w
         | CostWeightedGravity \<Rightarrow> Inl (AttributeError name)
         | CostPostureDiff \<Rightarrow> CostPostureDiff_residual P self q w)
     else if name = ''calc'' then
       returning PFloat (case cls of
           Cost3d \<Rightarrow> Cost3d_calc F P self q w
         | Cost6d \<Rightarrow> Cost6d_calc F P self q w
         | CostPosture \<Rightarrow> CostPosture_calc F self q w
         | CostGravity \<Rightarrow> CostGravity_calc F P self q w
         | CostWeightedGravity \<Rightarrow> CostWeightedGravity_calc P self q w
         | CostPostureDiff \<Rightarrow> CostPostureDiff_calc F P self q w)
     else if name = ''calcDiff'' then
       returning PArr (case cls of
           Cost3d \<Rightarrow> Cost3d_calcDiff F P self q w
         | Cost6d \<Rightarrow> Cost6d_calcDiff F P self q w
         | CostPosture \<Rightarrow> CostPosture_calcDiff F self q w
         | CostGravity \<Rightarrow> CostGravity_calcDiff F P self q w
         | CostWeightedGravity \<Rightarrow> CostWeightedGravity_calcDiff P self q w
         | CostPostureDiff \<Rightarrow> CostPostureDiff_calcDiff F P self q w)
     else if name = ''callback'' then
       returning (\<lambda>u. PNone) (case cls of
           Cost3d \<Rightarrow> Cost3d_callback F P self q w
         | Cost6d \<Rightarrow> Cost6d_callback F P self q w
         | _ \<Rightarrow> Inl (AttributeError name))
     else Inl (TypeError name))"

section \<open>An interpretation for the examples\<close>

text \<open>
  The examples below run the embedding on concrete inputs. They read floats as reals
  (decimal numerals only), and use a toy library: its world counts the calls made, a
  placement is its translation, and there is one matrix.
\<close>

definition digit :: "char \<Rightarrow> nat option" where
  "digit c = (let n = (of_char c :: nat) in if 48 \<le> n \<and> n \<le> 57 then Some (n - 48) else None)"

fun digits :: "string \<Rightarrow> nat \<Rightarrow> nat option" where
  "digits [] n = Some n"
| "digits (c # cs) n = (case digit c of None \<Rightarrow> None | Some d \<Rightarrow> digits cs (10 * n + d))"

definition read_decimal :: "string \<Rightarrow> real option" where
  "read_decimal s =
    (let ip = takeWhile (\<lambda>c. c \<noteq> CHR ''.'') s;
         fp = drop (length ip + 1) s
     in if ip = [] \<and> fp = [] then None
        else case (digits ip 0, digits fp 0) of
          (Some a, Some b) \<Rightarrow> Some (real a + real b / 10 ^ length fp)
        | _ \<Rightarrow> None)"

definition ideal_ops :: "real float_ops" where
  "ideal_ops =
    \<lparr>float_of_int = real_of_int,
     float_lit = (\<lambda>s. case read_decimal s of Some x \<Rightarrow> x | None \<Rightarrow> 0),
     float_of_str = read_decimal,
     np_tan = tan,
     np_deg2rad = (\<lambda>x. x * pi / 180)\<rparr>"

definition toy_pin :: "(real, nat, unit, real list) pinocchio" where
  "toy_pin =
    \<lparr>framesForwardKinematics = (\<lambda>m d q w. Suc w),
     forwardKinematics = (\<lambda>m d q w. Suc w),
     computeJointJacobians = (\<lambda>m d q w. Suc w),
     updateFramePlacement = (\<lambda>m d i w. ([0, 0, 0], Suc w)),
     getFrameJacobian = (\<lambda>m d i rf w. ((), w)),
     computeFrameJacobian = (\<lambda>m d q i w. ((), Suc w)),
     computeGeneralizedGravity = (\<lambda>m d q w. (q, Suc w)),
     computeGeneralizedGravityDerivatives = (\<lambda>m d q w. ((), Suc w)),
     aba = (\<lambda>m d q v a w. (q, Suc w)),
     computeABADerivatives = (\<lambda>m d q v a w. Suc w),
     computeRNEADerivatives = (\<lambda>m d q v a w. Suc w),
     randomConfiguration = (\<lambda>m w. (replicate (sum_list (joints_nq m)) 0, Suc w)),
     difference = (\<lambda>m q0 q1. map2 (-) q1 q0),
     dDifference = (\<lambda>m q0 q1. ((), ())),
     data_oMf = (\<lambda>w d i. [0, 0, 0]),
     data_dtau_dq = (\<lambda>w d. ()),
     data_ddq_dq = (\<lambda>w d. ()),
     data_ddq = (\<lambda>w d. []),
     data_tau = (\<lambda>w d. []),
     default_Mtarget = [1 / 2, 1 / 10, 27 / 100],
     se3_translation = (\<lambda>M. M),
     se3_inverse = map uminus,
     se3_mul = map2 (+),
     log_vector = (\<lambda>M. M @ [0, 0, 0]),
     Jlog6 = (\<lambda>M. ()),
     SE3ToXYZQUATtuple = (\<lambda>M. M @ [0, 0, 0, 1]),
     mat_T = (\<lambda>A. A),
     mat_rows3 = (\<lambda>A. A),
     mat_scale = (\<lambda>c A. A),
     mat_neg = (\<lambda>A. A),
     matmul = (\<lambda>A B. A),
     matvec = (\<lambda>A v. v),
     np_dot = (\<lambda>x y. sum_list (map2 (*) x y)),
     applyViewerConfiguration = (\<lambda>v name xs w. Suc w),
     viz_display = (\<lambda>v q w. Suc w),
     time_sleep = (\<lambda>t w. w)\<rparr>"

text \<open>
  A model with a free-flyer root joint (seven configuration variables) and two
  one-dimensional joints, and a model without a free flyer.
\<close>

definition floating_model :: pin_model where
  "floating_model = \<lparr>nv = 8, nframes = 5, joints_nq = [0, 7, 1, 1]\<rparr>"

definition fixed_model :: pin_model where
  "fixed_model = \<lparr>nv = 2, nframes = 4, joints_nq = [0, 1, 1]\<rparr>"

text \<open>The object \<^verbatim>\<open>CostPosture(fixed_model, rdata, qref=np.zeros(2))\<close>.\<close>

definition posture_at_origin :: "(real, real list) obj" where
  "posture_at_origin = Map.empty(''qref'' \<mapsto> PArr [0, 0], ''removeFreeFlyer'' \<mapsto> PBool False)"

text \<open>
  The namespace of \<^verbatim>\<open>-b obj_000014 -m models\<close>, a 640 by 480 colour frame, and a state
  of the loop after its first iteration.
\<close>

definition example_namespace :: "real namespace" where
  "example_namespace = Map.empty(
     ''body_name'' \<mapsto> ArgStr ''obj_000014'',
     ''models_dir'' \<mapsto> ArgStr ''models'',
     ''fov'' \<mapsto> ArgFloat 50,
     ''scale_geometry'' \<mapsto> ArgFloat (1 / 1000),
     ''tmp_dir'' \<mapsto> ArgStr ''tmp'',
     ''use_region'' \<mapsto> ArgBool False)"


definition vga_frame :: "unit frame" where
  "vga_frame = \<lparr>shape = [480, 640, 3], pixels = ()\<rparr>"

definition idle_state :: "(real, unit, nat) state" where
  "idle_state =
    \<lparr>st_cam = cam_intrinsics (intrinsics_approx ideal_ops 50 480 640),
     st_first = False, st_tracking = False, st_i = 1, st_ret = True,
     st_frame = Some vga_frame, st_image = Some vga_frame, st_pose = 0, st_viewer = Some 1\<rparr>"

definition key_tick :: "int \<Rightarrow> (unit, nat) tick" where
  "key_tick k =
    \<lparr>read_ret = True, read_frame = Some vga_frame, update_cameras = True, wait_key = k,
     tracked_pose = 7\<rparr>"

section \<open>Properties of the frame loop\<close>

lemma ord_d: "ord CHR ''d'' = 100" "ord CHR ''x'' = 120" "ord CHR ''q'' = 113"
  by (simp_all add: ord_def)

lemma loop_raise_iff:
  "fst (loop_body b2w s t) = Raise e \<longleftrightarrow> (\<not> update_cameras t \<and> e = images_error)"
  by (auto simp: loop_body_def Let_def)

lemma first_failing_Cons:
  "(\<exists>pre u post. t # ts = pre @ u # post \<and> P u \<and> list_all Q pre) \<longleftrightarrow>
     P t \<or> (Q t \<and> (\<exists>pre u post. ts = pre @ u # post \<and> P u \<and> list_all Q pre))"
  (is "?L \<longleftrightarrow> ?R")
proof
  assume ?L
  then obtain pre u post where e: "t # ts = pre @ u # post" and u: "P u" and pre: "list_all Q pre"
    by blast
  show ?R
  proof (cases pre)
    case Nil
    with e u show ?thesis by simp
  next
    case (Cons a pre')
    with e pre have "Q t" and "ts = pre' @ u # post" and "list_all Q pre'" by simp_all
    with u show ?thesis by blast
  qed
next
  assume r: ?R
  show ?L
  proof (cases "P t")
    case True
    then have "t # ts = [] @ t # ts \<and> P t \<and> list_all Q []" by simp
    then show ?thesis by blast
  next
    case False
    with r obtain pre u post where "Q t" "ts = pre @ u # post" "P u" "list_all Q pre" by blast
    then have "t # ts = (t # pre) @ u # post \<and> P u \<and> list_all Q (t # pre)" by simp
    then show ?thesis by blast
  qed
qed

lemma run_loop_raised_iff:
  "run_loop b2w s ticks = Raised e \<longleftrightarrow>
     e = images_error \<and>
     (\<exists>pre t post. ticks = pre @ t # post \<and> \<not> update_cameras t \<and>
        list_all (\<lambda>u. update_cameras u \<and> wait_key u \<noteq> ord CHR ''q'') pre)"
proof (induction ticks arbitrary: s)
  case Nil
  then show ?case by simp
next
  case (Cons t ts)
  show ?case
  proof (cases "update_cameras t")
    case False
    then have "run_loop b2w s (t # ts) = Raised images_error"
      by (simp add: loop_body_def Let_def)
    with False show ?thesis
      unfolding first_failing_Cons by auto
  next
    case True
    show ?thesis
    proof (cases "wait_key t = ord CHR ''q''")
      case q: True
      then have "run_loop b2w s (t # ts) = Finished (snd (loop_body b2w s t))"
        using True by (simp add: loop_body_def Let_def)
      with True q show ?thesis
        unfolding first_failing_Cons by simp
    next
      case nq: False
      then obtain s' where s': "loop_body b2w s t = (Continue, s')"
        using True by (simp add: loop_body_def Let_def)
      with True nq Cons.IH[of s'] show ?thesis
        unfolding first_failing_Cons by simp
    qed
  qed
qed



lemma loop_body_cam: "st_cam (snd (loop_body b2w s t)) = st_cam s"
  by (simp add: loop_body_def key_handling_def Let_def)

lemma run_loop_cam:
  "run_loop b2w s ticks = Running s' \<or> run_loop b2w s ticks = Finished s' \<Longrightarrow> st_cam s' = st_cam s"
proof (induction ticks arbitrary: s)
  case Nil
  then show ?case by simp
next
  case (Cons t ts)
  obtain sg s1 where b: "loop_body b2w s t = (sg, s1)" by (cases "loop_body b2w s t")
  then have c: "st_cam s1 = st_cam s" using loop_body_cam[of b2w s t] by simp
  show ?case
  proof (cases sg)
    case Continue
    with Cons.prems b have "run_loop b2w s1 ts = Running s' \<or> run_loop b2w s1 ts = Finished s'"
      by simp
    from Cons.IH[OF this] c show ?thesis by simp
  next
    case Break
    with Cons.prems b c show ?thesis by auto
  next
    case (Raise e)
    with Cons.prems b show ?thesis by simp
  qed
qed

lemma after_first: "loop_body b2w s t = (Continue, s') \<Longrightarrow> \<not> st_first s'"
  by (auto simp: loop_body_def key_handling_def Let_def split: if_splits)




text \<open>
  Claim C4. The loop raises exactly when \<^verbatim>\<open>tracker.UpdateCameras\<close> returns false, and
  what it raises is the \<^verbatim>\<open>ValueError\<close> of line 88: one iteration raises \<open>e\<close> if and
  only if the update failed and \<open>e\<close> is that error, and a run of the loop ends with an
  exception \<open>e\<close> if and only if \<open>e\<close> is that error and some iteration's update failed
  while every earlier iteration's update succeeded and none of them read the key
  \<^verbatim>\<open>q\<close>. The script has no \<^verbatim>\<open>try\<close>: it handles no failure.
\<close>

theorem single_fatal_error_check:
  "(fst (loop_body b2w s t) = Raise e \<longleftrightarrow> \<not> update_cameras t \<and> e = images_error) \<and>
   (run_loop b2w s ticks = Raised e \<longleftrightarrow>
      e = images_error \<and>
      (\<exists>pre u post. ticks = pre @ u # post \<and> \<not> update_cameras u \<and>
         list_all (\<lambda>v. update_cameras v \<and> wait_key v \<noteq> ord CHR ''q'') pre))"
  using loop_raise_iff[of b2w s t e] run_loop_raised_iff[of b2w s ticks e] by simp

theorem single_fatal_error_check_witness:
  "run_loop 0 idle_state [key_tick 0, (key_tick 0)\<lparr>update_cameras := False\<rparr>] = Raised images_error \<and>
   fst (loop_body 0 idle_state (key_tick 0)) \<noteq> Raise images_error"
proof -
  let ?bad = "(key_tick 0)\<lparr>update_cameras := False\<rparr>"
  note t = single_fatal_error_check[of 0 idle_state "key_tick 0" images_error "[key_tick 0, ?bad]"]
  have "[key_tick 0, ?bad] = [key_tick 0] @ ?bad # [] \<and> \<not> update_cameras ?bad \<and>
      list_all (\<lambda>v. update_cameras v \<and> wait_key v \<noteq> ord CHR ''q'') [key_tick 0]"
    by (simp add: key_tick_def ord_def)
  then have "\<exists>pre u post. [key_tick 0, ?bad] = pre @ u # post \<and> \<not> update_cameras u \<and>
      list_all (\<lambda>v. update_cameras v \<and> wait_key v \<noteq> ord CHR ''q'') pre"
    by (intro exI)
  moreover have "update_cameras (key_tick 0)" by (simp add: key_tick_def)
  ultimately show ?thesis using t by simp
qed



text \<open>
  Claim C6. In an iteration after the first (\<^verbatim>\<open>first\<close> is false, see \<open>after_first\<close>)
  whose key is not \<^verbatim>\<open>d\<close>, the pose is left as it was whenever tracking is disabled,
  that is, whenever the flag \<^verbatim>\<open>tracking\<close> that the iteration tests and leaves is false.
  The flag is false when it was false before the iteration and the key is not \<^verbatim>\<open>x\<close>;
  the key \<^verbatim>\<open>x\<close> enables tracking in the iteration that reads it.
\<close>

theorem pose_left_unchanged:
  assumes "\<not> st_first s" and "wait_key t \<noteq> ord CHR ''d''"
  shows "(\<not> st_tracking (snd (loop_body b2w s t)) \<longrightarrow>
            st_pose (snd (loop_body b2w s t)) = st_pose s) \<and>
         (\<not> st_tracking s \<and> wait_key t \<noteq> ord CHR ''x'' \<longrightarrow>
            \<not> st_tracking (snd (loop_body b2w s t)))"
  using assms by (simp add: loop_body_def key_handling_def Let_def)

theorem pose_left_unchanged_witness:
  "\<not> st_first idle_state \<and> wait_key (key_tick 0) \<noteq> ord CHR ''d'' \<and>
   \<not> st_tracking (snd (loop_body 3 idle_state (key_tick 0))) \<and>
   st_pose (snd (loop_body 3 idle_state (key_tick 0))) = st_pose idle_state"
proof -
  have 1: "\<not> st_first idle_state" by (simp add: idle_state_def)
  have 2: "wait_key (key_tick 0) \<noteq> ord CHR ''d''" by (simp add: key_tick_def ord_def)
  have 3: "\<not> st_tracking idle_state \<and> wait_key (key_tick 0) \<noteq> ord CHR ''x''"
    by (simp add: idle_state_def key_tick_def ord_def)
  from pose_left_unchanged[OF 1 2, of 3] 1 2 3 show ?thesis by simp
qed

text \<open>
  Claim C10. The first read is unchecked: when it yields no frame, the script ends with
  the \<^verbatim>\<open>AttributeError\<close> of \<^verbatim>\<open>frame.shape\<close>, whatever the namespace holds, whatever the
  flag \<^verbatim>\<open>ret\<close> says and before any iteration of the loop (whatever the world would have
  answered there); and the start-up does not depend on the flag.
\<close>

theorem first_read_unchecked:
  "script_body F args (ret, None) pose0 b2w ticks = Raised (AttributeError ''shape'') \<and>
   startup F args (True, fr) = startup F args (False, fr)"
  by (simp add: script_body_def startup_def unpack_shape_def and_then_def)

theorem first_read_unchecked_witness:
  "script_body ideal_ops example_namespace (False, None) (0::nat) 0
     [(key_tick 0)\<lparr>update_cameras := False\<rparr>] = Raised (AttributeError ''shape'')"
  by (rule first_read_unchecked[THEN conjunct1])

section \<open>Properties of the cost classes\<close>

lemma calc_of_residual:
  assumes "cls \<noteq> CostWeightedGravity"
  shows "call_method F P cls ''calc'' self q w =
    and_then (call_method F P cls ''residual'' self q w) (\<lambda>(r, self', w').
      case r of PArr v \<Rightarrow> Inr (PFloat (py_sum F (np_square v)), self', w')
      | _ \<Rightarrow> Inl (TypeError ''residual''))"
  using assms
  by (cases cls)
    (simp_all add: call_method_def returning_def and_then_def Cost3d_calc_def Cost6d_calc_def
      CostPosture_calc_def CostGravity_calc_def CostPostureDiff_calc_def
      split: sum.splits prod.splits)

lemma methods_provided:
  "''calc'' \<in> set (class_methods cls) \<and> ''calcDiff'' \<in> set (class_methods cls) \<and>
   (''residual'' \<in> set (class_methods cls) \<longleftrightarrow> cls \<noteq> CostWeightedGravity)"
  by (cases cls) simp_all

lemma weighted_gravity_calc:
  "call_method F P CostWeightedGravity ''calc'' (CostWeightedGravity_init F rmodel rdata viz) q w =
    (let (g, w1) = computeGeneralizedGravity P rmodel rdata q w;
         (a, w2) = aba P rmodel rdata q (np_zeros F (nv rmodel)) (np_zeros F (nv rmodel)) w1
     in Inr (PFloat (np_dot P (np_neg a) g), CostWeightedGravity_init F rmodel rdata viz, w2))"
  by (simp add: call_method_def returning_def and_then_def CostWeightedGravity_calc_def
      CostWeightedGravity_init_def attr_model_def attr_ref_def attr_arr_def getattr_def Let_def
      split: prod.splits)

lemma posture_attributes:
  assumes "CostPosture_init P rmodel rdata qref viz w = Inr (self, w1)"
  shows "self ''qref'' = Some (PArr (case qref of Some x \<Rightarrow> x | None \<Rightarrow> fst (randomConfiguration P rmodel w)))
     \<and> self ''removeFreeFlyer'' = Some (PBool (joints_nq rmodel ! 1 = 7))
     \<and> self ''rmodel'' = None \<and> self ''rdata'' = None"
  using assms
  by (auto simp: CostPosture_init_def Let_def split: option.splits prod.splits if_splits)

lemma posture_init_ok:
  assumes "1 < length (joints_nq rmodel)"
  shows "\<exists>self w1. CostPosture_init P rmodel rdata qref viz w = Inr (self, w1)"
  using assms by (simp add: CostPosture_init_def Let_def split: option.splits prod.splits)

lemma posture_calcDiff_raises:
  assumes "self ''removeFreeFlyer'' = Some (PBool True)" and "self ''rmodel'' = None"
  shows "CostPosture_calcDiff F self q w = Inl (AttributeError ''rmodel'')"
  using assms
  by (simp add: CostPosture_calcDiff_def attr_bool_def attr_model_def getattr_def and_then_def)

lemma callback6d_raises:
  "Cost6d_callback F P (Cost6d_init P rmodel rdata frame_index Mtarget (Some v)) q w =
     Inl (NameError ''M'')"
  by (simp add: Cost6d_callback_def Cost6d_init_def getattr_def attr_ref_def and_then_def
      load_global_def module_names_def)

lemma callback6d_no_viz:
  "Cost6d_callback F P (Cost6d_init P rmodel rdata frame_index Mtarget None) q w =
     Inr ((), Cost6d_init P rmodel rdata frame_index Mtarget None, w)"
  by (simp add: Cost6d_callback_def Cost6d_init_def getattr_def and_then_def)

text \<open>
  Claim C8. For a model whose first joint is a free flyer (\<^verbatim>\<open>rmodel.joints[1].nq == 7\<close>)
  the constructor of \<^verbatim>\<open>CostPosture\<close> succeeds and stores no \<^verbatim>\<open>rmodel\<close>, and
  \<^verbatim>\<open>calcDiff(q)\<close> on the object raises \<^verbatim>\<open>AttributeError\<close> for \<^verbatim>\<open>rmodel\<close>, for every
  configuration \<open>q\<close> and in every state of the world.
\<close>

theorem CostPosture_calcDiff_free_flyer:
  fixes P :: "('a::{plus,minus,times,uminus}, 'w, 'm, 's) pinocchio"
  assumes "1 < length (joints_nq rmodel)" and "joints_nq rmodel ! 1 = 7"
  shows "\<exists>self w1. CostPosture_init P rmodel rdata qref viz w = Inr (self, w1) \<and>
      self ''rmodel'' = None \<and>
      (\<forall>q (w'::'w). CostPosture_calcDiff F self q w' = Inl (AttributeError ''rmodel'')) \<and>
      (\<forall>q w'. call_method F P CostPosture ''calcDiff'' self q w' = Inl (AttributeError ''rmodel''))"
proof -
  from posture_init_ok[OF assms(1), of P rdata qref viz w] obtain self w1 where
    i: "CostPosture_init P rmodel rdata qref viz w = Inr (self, w1)" by blast
  from posture_attributes[OF i] assms(2) have
    a: "self ''removeFreeFlyer'' = Some (PBool True)" "self ''rmodel'' = None" by simp_all
  have c: "CostPosture_calcDiff F self q w' = Inl (AttributeError ''rmodel'')" for q and w' :: 'w
    by (rule posture_calcDiff_raises[OF a])
  have d: "call_method F P CostPosture ''calcDiff'' self q w' = Inl (AttributeError ''rmodel'')" for q and w' :: 'w
    by (simp add: call_method_def returning_def and_then_def c)
  from i a(2) c d show ?thesis by simp
qed

theorem CostPosture_calcDiff_free_flyer_witness:
  "1 < length (joints_nq floating_model) \<and> joints_nq floating_model ! 1 = 7 \<and>
   (\<exists>self w1. CostPosture_init toy_pin floating_model 0 None None 0 = Inr (self, w1) \<and>
      self ''rmodel'' = None \<and>
      (\<forall>q w'. CostPosture_calcDiff ideal_ops self q (w'::nat) = Inl (AttributeError ''rmodel'')) \<and>
      (\<forall>q w'. call_method ideal_ops toy_pin CostPosture ''calcDiff'' self q w' =
          Inl (AttributeError ''rmodel'')))"
proof -
  have 1: "1 < length (joints_nq floating_model)" by (simp add: floating_model_def)
  have 2: "joints_nq floating_model ! 1 = 7" by (simp add: floating_model_def)
  note t = CostPosture_calcDiff_free_flyer[OF 1 2, of toy_pin 0 None None 0 ideal_ops]
  show ?thesis
    apply (intro conjI)
      apply (rule 1)
     apply (rule 2)
    apply (rule t)
    done
qed

text \<open>
  Claim C9. On a \<^verbatim>\<open>Cost6d\<close> object constructed with a viewer (\<^verbatim>\<open>viz\<close> not \<^verbatim>\<open>None\<close>),
  \<^verbatim>\<open>callback(q)\<close> raises \<^verbatim>\<open>NameError\<close> for the name \<^verbatim>\<open>M\<close>, for every configuration
  \<open>q\<close> and whatever the other arguments of the constructor are.
\<close>

theorem Cost6d_callback_undefined_name:
  "Cost6d_callback F P (Cost6d_init P rmodel rdata frame_index Mtarget (Some v)) q w =
     Inl (NameError ''M'') \<and>
   call_method F P Cost6d ''callback'' (Cost6d_init P rmodel rdata frame_index Mtarget (Some v)) q w =
     Inl (NameError ''M'')"
  by (simp add: callback6d_raises call_method_def returning_def and_then_def)

theorem Cost6d_callback_undefined_name_witness:
  "call_method ideal_ops toy_pin Cost6d ''callback''
     (Cost6d_init toy_pin fixed_model 0 None None (Some 1)) [0, 0] 0 = Inl (NameError ''M'')"
  by (rule Cost6d_callback_undefined_name[THEN conjunct2])

text \<open>
  Claim C1 says that every cost class holds the model/data pair and a target and provides
  \<^verbatim>\<open>residual\<close>, \<^verbatim>\<open>calc\<close> (the sum of the squared entries of \<^verbatim>\<open>residual\<close>) and
  \<^verbatim>\<open>calcDiff\<close>. The code differs: \<^verbatim>\<open>CostWeightedGravity\<close> has no method \<^verbatim>\<open>residual\<close>,
  \<^verbatim>\<open>CostPosture\<close> stores neither \<^verbatim>\<open>rmodel\<close> nor \<^verbatim>\<open>rdata\<close>, and \<^verbatim>\<open>CostGravity\<close>
  stores no target.
\<close>

theorem cost_classes_interface_counterexample:
  "call_method ideal_ops toy_pin CostWeightedGravity ''residual''
      (CostWeightedGravity_init ideal_ops fixed_model 0 None) [3, 4] 0 =
     Inl (AttributeError ''residual'') \<and>
   CostPosture_init toy_pin fixed_model 0 (Some [0, 0]) None 0 = Inr (posture_at_origin, 0) \<and>
   posture_at_origin ''rmodel'' = None \<and> posture_at_origin ''rdata'' = None \<and>
   map (CostGravity_init fixed_model 0 None :: (real, real list) obj)
     [''ptarget'', ''Mtarget'', ''qref''] = [None, None, None]"
  by (simp add: call_method_def CostPosture_init_def fixed_model_def posture_at_origin_def
      CostGravity_init_def)

text \<open>
  Claim C1, as amended. \<^verbatim>\<open>Cost3d\<close>, \<^verbatim>\<open>Cost6d\<close>, \<^verbatim>\<open>CostGravity\<close> and
  \<^verbatim>\<open>CostWeightedGravity\<close> hold the model and the data object they are constructed with,
  and \<^verbatim>\<open>CostPostureDiff\<close> the model; \<^verbatim>\<open>Cost3d\<close>, \<^verbatim>\<open>Cost6d\<close>, \<^verbatim>\<open>CostPosture\<close> and
  \<^verbatim>\<open>CostPostureDiff\<close> hold a target (\<^verbatim>\<open>ptarget\<close>, \<^verbatim>\<open>Mtarget\<close>, \<^verbatim>\<open>qref\<close>: the
  argument, or the default). Every class provides \<^verbatim>\<open>calc\<close> and \<^verbatim>\<open>calcDiff\<close>; every
  class but \<^verbatim>\<open>CostWeightedGravity\<close> provides \<^verbatim>\<open>residual\<close>, and there \<^verbatim>\<open>calc(q)\<close> is
  the sum of the squared entries of what \<^verbatim>\<open>residual(q)\<close> returns, raising what it
  raises and leaving the object and the world as it leaves them.
  \<^verbatim>\<open>CostWeightedGravity.calc(q)\<close> is the dot product of \<^verbatim>\<open>-aba(q, 0, 0)\<close> with the
  generalized gravity at \<open>q\<close>.
\<close>

theorem cost_classes_interface:
  fixes P :: "('a::{plus,minus,times,uminus}, 'w, 'm, 's) pinocchio"
    and c3 c6 cg cw :: "('a, 's) obj"
  assumes "c3 = Cost3d_init F rmodel rdata frame_index ptarget viz"
      and "c6 = Cost6d_init P rmodel rdata frame_index Mtarget viz"
      and "cg = CostGravity_init rmodel rdata viz"
      and "cw = CostWeightedGravity_init F rmodel rdata viz"
  shows
   "c3 ''rmodel'' = Some (PModel rmodel) \<and> c3 ''rdata'' = Some (PRef rdata) \<and>
    c3 ''ptarget'' = Some (PArr (case ptarget of Some p \<Rightarrow> p
       | None \<Rightarrow> [float_lit F ''0.5'', float_lit F ''0.1'', float_lit F ''0.27''])) \<and>
    c6 ''rmodel'' = Some (PModel rmodel) \<and> c6 ''rdata'' = Some (PRef rdata) \<and>
    c6 ''Mtarget'' = Some (PSE3 (case Mtarget of Some M \<Rightarrow> M | None \<Rightarrow> default_Mtarget P)) \<and>
    cg ''rmodel'' = Some (PModel rmodel) \<and> cg ''rdata'' = Some (PRef rdata) \<and>
    cw ''rmodel'' = Some (PModel rmodel) \<and> cw ''rdata'' = Some (PRef rdata) \<and>
    (CostPosture_init P rmodel rdata qref viz w = Inr (cp, wp) \<longrightarrow>
       cp ''qref'' = Some (PArr (case qref of Some x \<Rightarrow> x
         | None \<Rightarrow> fst (randomConfiguration P rmodel w)))) \<and>
    fst (CostPostureDiff_init P rmodel rdata qref viz w) ''rmodel'' = Some (PModel rmodel) \<and>
    fst (CostPostureDiff_init P rmodel rdata qref viz w) ''qref'' =
       Some (PArr (case qref of Some x \<Rightarrow> x | None \<Rightarrow> fst (randomConfiguration P rmodel w))) \<and>
    ''calc'' \<in> set (class_methods cls) \<and> ''calcDiff'' \<in> set (class_methods cls) \<and>
    (''residual'' \<in> set (class_methods cls) \<longleftrightarrow> cls \<noteq> CostWeightedGravity) \<and>
    (cls \<noteq> CostWeightedGravity \<longrightarrow>
       call_method F P cls ''calc'' self q w =
         and_then (call_method F P cls ''residual'' self q w) (\<lambda>(r, self', w').
           case r of PArr v \<Rightarrow> Inr (PFloat (py_sum F (np_square v)), self', w')
           | _ \<Rightarrow> Inl (TypeError ''residual''))) \<and>
    call_method F P CostWeightedGravity ''calc'' cw q w =
      (let (g, w1) = computeGeneralizedGravity P rmodel rdata q w;
           (a, w2) = aba P rmodel rdata q (np_zeros F (nv rmodel)) (np_zeros F (nv rmodel)) w1
       in Inr (PFloat (np_dot P (np_neg a) g), cw, w2))"
proof -
  have 3: "c3 ''rmodel'' = Some (PModel rmodel)" "c3 ''rdata'' = Some (PRef rdata)"
    "c3 ''ptarget'' = Some (PArr (case ptarget of Some p \<Rightarrow> p
       | None \<Rightarrow> [float_lit F ''0.5'', float_lit F ''0.1'', float_lit F ''0.27'']))"
    by (simp_all add: assms(1) Cost3d_init_def)
  have 6: "c6 ''rmodel'' = Some (PModel rmodel)" "c6 ''rdata'' = Some (PRef rdata)"
    "c6 ''Mtarget'' = Some (PSE3 (case Mtarget of Some M \<Rightarrow> M | None \<Rightarrow> default_Mtarget P))"
    by (simp_all add: assms(2) Cost6d_init_def)
  have g: "cg ''rmodel'' = Some (PModel rmodel)" "cg ''rdata'' = Some (PRef rdata)"
    by (simp_all add: assms(3) CostGravity_init_def)
  have w: "cw ''rmodel'' = Some (PModel rmodel)" "cw ''rdata'' = Some (PRef rdata)"
    by (simp_all add: assms(4) CostWeightedGravity_init_def)
  have p: "CostPosture_init P rmodel rdata qref viz w = Inr (cp, wp) \<longrightarrow>
       cp ''qref'' = Some (PArr (case qref of Some x \<Rightarrow> x
         | None \<Rightarrow> fst (randomConfiguration P rmodel w)))"
    using posture_attributes[of P rmodel rdata qref viz w cp wp] by simp
  have d: "fst (CostPostureDiff_init P rmodel rdata qref viz w) ''rmodel'' = Some (PModel rmodel)"
    "fst (CostPostureDiff_init P rmodel rdata qref viz w) ''qref'' =
       Some (PArr (case qref of Some x \<Rightarrow> x | None \<Rightarrow> fst (randomConfiguration P rmodel w)))"
    by (simp_all add: CostPostureDiff_init_def Let_def split: option.splits prod.splits)
  note m = methods_provided[of cls]
  have c: "cls \<noteq> CostWeightedGravity \<longrightarrow>
       call_method F P cls ''calc'' self q w =
         and_then (call_method F P cls ''residual'' self q w) (\<lambda>(r, self', w').
           case r of PArr v \<Rightarrow> Inr (PFloat (py_sum F (np_square v)), self', w')
           | _ \<Rightarrow> Inl (TypeError ''residual''))"
    using calc_of_residual[of cls F P self q w] by (rule impI)
  note wg = weighted_gravity_calc[of F P rmodel rdata viz q w, folded assms(4)]
  show ?thesis
    by (intro conjI 3 6 g w p d m[THEN conjunct1] m[THEN conjunct2, THEN conjunct1]
        m[THEN conjunct2, THEN conjunct2] c wg)
qed

theorem cost_classes_interface_witness:
  "CostPosture_init toy_pin fixed_model 0 (Some [0, 0]) None 0 = Inr (posture_at_origin, 0) \<and>
   posture_at_origin ''qref'' = Some (PArr [0, 0]) \<and>
   call_method ideal_ops toy_pin CostPosture ''residual'' posture_at_origin [3, 4] 0 =
     Inr (PArr [3, 4], posture_at_origin, 0) \<and>
   call_method ideal_ops toy_pin CostPosture ''calc'' posture_at_origin [3, 4] 0 =
     Inr (PFloat 25, posture_at_origin, 0)"
proof -
  note t = cost_classes_interface[where F = ideal_ops and P = toy_pin and cls = CostPosture
      and self = posture_at_origin and q = "[3, 4]" and w = 0 and rmodel = fixed_model
      and rdata = 0 and qref = "Some [0, 0]" and viz = None and cp = posture_at_origin
      and wp = 0 and frame_index = None and ptarget = None and Mtarget = None,
      OF refl refl refl refl]
  have i: "CostPosture_init toy_pin fixed_model 0 (Some [0, 0]) None 0 = Inr (posture_at_origin, 0)"
    by (simp add: CostPosture_init_def fixed_model_def posture_at_origin_def)
  from t have "CostPosture_init toy_pin fixed_model 0 (Some [0, 0]) None 0 = Inr (posture_at_origin, 0) \<longrightarrow>
       posture_at_origin ''qref'' = Some (PArr (case Some [0, 0] of Some x \<Rightarrow> x
         | None \<Rightarrow> fst (randomConfiguration toy_pin fixed_model 0)))"
    by (elim conjE)
  with i have a: "posture_at_origin ''qref'' = Some (PArr [0, 0])" by simp
  have r: "call_method ideal_ops toy_pin CostPosture ''residual'' posture_at_origin [3, 4] 0 =
     Inr (PArr [3, 4], posture_at_origin, 0)"
    by (simp add: call_method_def returning_def and_then_def CostPosture_residual_def
        attr_bool_def attr_arr_def getattr_def posture_at_origin_def np_sub_def)
  from t have "CostPosture \<noteq> CostWeightedGravity \<longrightarrow>
       call_method ideal_ops toy_pin CostPosture ''calc'' posture_at_origin [3, 4] 0 =
         and_then (call_method ideal_ops toy_pin CostPosture ''residual'' posture_at_origin [3, 4] 0)
           (\<lambda>(r, self', w').
           case r of PArr v \<Rightarrow> Inr (PFloat (py_sum ideal_ops (np_square v)), self', w')
           | _ \<Rightarrow> Inl (TypeError ''residual''))"
    by (elim conjE)
  then have c: "call_method ideal_ops toy_pin CostPosture ''calc'' posture_at_origin [3, 4] 0 =
     Inr (PFloat 25, posture_at_origin, 0)"
  proof -
    have v: "py_sum ideal_ops (np_square [3, 4]) = 25"
      by (simp add: py_sum_def np_square_def ideal_ops_def)
    assume "CostPosture \<noteq> CostWeightedGravity \<longrightarrow>
       call_method ideal_ops toy_pin CostPosture ''calc'' posture_at_origin [3, 4] 0 =
         and_then (call_method ideal_ops toy_pin CostPosture ''residual'' posture_at_origin [3, 4] 0)
           (\<lambda>(r, self', w').
           case r of PArr v \<Rightarrow> Inr (PFloat (py_sum ideal_ops (np_square v)), self', w')
           | _ \<Rightarrow> Inl (TypeError ''residual''))"
    then show ?thesis by (simp add: r and_then_def v)
  qed
  from i a r c show ?thesis by (intro conjI)
qed

end
